theory Spec2Isabelle
  imports Complex_Main "HOL-Library.Word"
begin

unbundle bit_operations_syntax

section \<open>Shared protocol data (Protocol.hpp)\<close>

text \<open>
  The C++ \<open>float\<close> fields of the game (positions, velocity) are modelled as exact
  real numbers, \<open>int\<close> fields as unbounded integers, bytes on the wire as \<open>8 word\<close>.
  A \<open>std::unordered_map\<close> is an association list in the iteration order of the
  table. The fields \<open>x\<close> and \<open>y\<close> of \<open>Position\<close> are \<open>pos_x\<close> and \<open>pos_y\<close> here.
\<close>

type_synonym byte = "8 word"

datatype TileType = EMPTY | COIN | ELECTRICSQUARE

datatype CoinState = AVAILABLE | COLLECTED_P1 | COLLECTED_P2 | COLLECTED_BOTH

record GameMap =
  width :: int
  height :: int
  tiles :: "TileType list list"
  coinStates :: "CoinState list list"

record Position =
  pos_x :: real
  pos_y :: real

text \<open>
  \<open>enum class PlayerState : uint8_t\<close>. A cast from a wire byte can hold a value
  without an enumerator; \<open>UNNAMED_STATE\<close> carries such a byte.
\<close>

datatype PlayerState =
  CONNECTED | READY | PLAYING | DEAD | FINISHED | DISCONNECTED | UNNAMED_STATE byte

record Player =
  m_clientSocket :: int
  m_id :: int
  m_position :: Position
  m_velocityY :: real
  m_isJetpacking :: bool
  m_score :: int
  m_state :: PlayerState

definition newPlayer :: "int \<Rightarrow> int \<Rightarrow> Player" where
  "newPlayer clientSocket playerId =
     \<lparr> m_clientSocket = clientSocket, m_id = playerId,
       m_position = \<lparr> pos_x = 0, pos_y = 0 \<rparr>, m_velocityY = 0,
       m_isJetpacking = False, m_score = 0, m_state = CONNECTED \<rparr>"

definition setPosition :: "real \<Rightarrow> real \<Rightarrow> Player \<Rightarrow> Player" where
  "setPosition px py player = player\<lparr> m_position := \<lparr> pos_x = px, pos_y = py \<rparr> \<rparr>"

datatype GameState = WAITING_FOR_PLAYERS | IN_PROGRESS | GAME_OVER

section \<open>Physics (Physics.cpp)\<close>

definition GRAVITY :: real where "GRAVITY = 0.008"
definition JETPACK_FORCE :: real where "JETPACK_FORCE = 0.013"
definition MAX_VELOCITY :: real where "MAX_VELOCITY = 0.05"
definition HORIZONTAL_SPEED :: real where "HORIZONTAL_SPEED = 0.05"

text \<open>\<open>std::clamp(v, lo, hi)\<close>: \<open>(v < lo) ? lo : (hi < v) ? hi : v\<close>.\<close>

definition std_clamp :: "real \<Rightarrow> real \<Rightarrow> real \<Rightarrow> real" where
  "std_clamp v lo hi = (if v < lo then lo else if hi < v then hi else v)"

definition applyPhysics :: "Player \<Rightarrow> Player" where
  "applyPhysics player =
     (let velocityY = m_velocityY player + GRAVITY;
          velocityY = (if m_isJetpacking player then velocityY - JETPACK_FORCE else velocityY);
          velocityY = std_clamp velocityY (- MAX_VELOCITY) MAX_VELOCITY;
          player = player\<lparr> m_velocityY := velocityY \<rparr>;
          pos = m_position player
      in setPosition (pos_x pos + HORIZONTAL_SPEED) (pos_y pos + velocityY) player)"

definition checkBounds :: "Player \<Rightarrow> GameMap \<Rightarrow> Player" where
  "checkBounds player gmap =
     (let pos = m_position player in
      if pos_y pos < 0 then
        (setPosition (pos_x pos) 0 player)\<lparr> m_velocityY := 0 \<rparr>
      else if pos_y pos \<ge> real_of_int (height gmap) - 1 then
        (setPosition (pos_x pos) (real_of_int (height gmap) - 1) player)\<lparr> m_velocityY := 0 \<rparr>
      else player)"

section \<open>Vectors and faults\<close>

text \<open>
  An index outside a \<open>std::vector\<close> is undefined behaviour in the source; the model
  stops with \<open>OutOfRange\<close>. A failed reload of the map throws
  \<open>MapLoaderException\<close>, which nothing catches.
\<close>

datatype fault = MapLoaderException | OutOfRange

definition bindF :: "fault + 'a \<Rightarrow> ('a \<Rightarrow> fault + 'b) \<Rightarrow> fault + 'b" where
  "bindF r f = (case r of Inl e \<Rightarrow> Inl e | Inr v \<Rightarrow> f v)"

primrec forEachF :: "('a \<Rightarrow> 's \<Rightarrow> fault + 's) \<Rightarrow> 'a list \<Rightarrow> 's \<Rightarrow> fault + 's" where
  "forEachF f [] s = Inr s"
| "forEachF f (a # as) s = (case f a s of Inl e \<Rightarrow> Inl e | Inr s' \<Rightarrow> forEachF f as s')"

definition vec_at :: "'a list \<Rightarrow> int \<Rightarrow> fault + 'a" where
  "vec_at v i = (if 0 \<le> i \<and> i < int (length v) then Inr (v ! nat i) else Inl OutOfRange)"

text \<open>\<open>g[y][x]\<close> and \<open>g[y][x] = v\<close> on a vector of vectors.\<close>

definition grid_at :: "'a list list \<Rightarrow> int \<Rightarrow> int \<Rightarrow> fault + 'a" where
  "grid_at g y x = bindF (vec_at g y) (\<lambda>row. vec_at row x)"

definition grid_set :: "'a list list \<Rightarrow> int \<Rightarrow> int \<Rightarrow> 'a \<Rightarrow> fault + 'a list list" where
  "grid_set g y x v =
     bindF (vec_at g y) (\<lambda>row.
       if 0 \<le> x \<and> x < int (length row) then Inr (g[nat y := row[nat x := v]])
       else Inl OutOfRange)"

text \<open>
  \<open>std::vector::resize(n, v)\<close>: cuts the vector to its first \<open>n\<close> elements, or
  appends copies of \<open>v\<close> up to \<open>n\<close> elements. Elements already there are kept.
\<close>

definition vec_resize :: "nat \<Rightarrow> 'a \<Rightarrow> 'a list \<Rightarrow> 'a list" where
  "vec_resize n v xs =
     (if n \<le> length xs then take n xs else xs @ replicate (n - length xs) v)"

text \<open>\<open>static_cast<int>(float)\<close>: the fractional part is discarded.\<close>

definition float_to_int :: "real \<Rightarrow> int" where
  "float_to_int r = (if 0 \<le> r then \<lfloor>r\<rfloor> else \<lceil>r\<rceil>)"

section \<open>Packets (Protocol.hpp)\<close>

text \<open>
  \<open>enum class PacketType\<close>; its enumerator \<open>GAME_OVER\<close> is \<open>GAME_OVER_PACKET\<close> here,
  apart from the session state of the same name.
\<close>

datatype PacketType =
  CONNECT_REQUEST | CONNECT_RESPONSE | MAP_DATA | GAME_START | PLAYER_INPUT
  | GAME_STATE_UPDATE | PLAYER_POSITION | COIN_COLLECTED | PLAYER_DEATH
  | GAME_OVER_PACKET | PLAYER_DISCONNECT

fun PacketType_byte :: "PacketType \<Rightarrow> byte" where
  "PacketType_byte CONNECT_REQUEST = 0x01"
| "PacketType_byte CONNECT_RESPONSE = 0x02"
| "PacketType_byte MAP_DATA = 0x03"
| "PacketType_byte GAME_START = 0x04"
| "PacketType_byte PLAYER_INPUT = 0x05"
| "PacketType_byte GAME_STATE_UPDATE = 0x06"
| "PacketType_byte PLAYER_POSITION = 0x07"
| "PacketType_byte COIN_COLLECTED = 0x08"
| "PacketType_byte PLAYER_DEATH = 0x09"
| "PacketType_byte GAME_OVER_PACKET = 0x0A"
| "PacketType_byte PLAYER_DISCONNECT = 0x0B"

text \<open>The enumerator of a tag byte, \<open>None\<close> for a byte that names no packet type.\<close>

definition PacketType_of_byte :: "byte \<Rightarrow> PacketType option" where
  "PacketType_of_byte b =
     (if b = 0x01 then Some CONNECT_REQUEST
      else if b = 0x02 then Some CONNECT_RESPONSE
      else if b = 0x03 then Some MAP_DATA
      else if b = 0x04 then Some GAME_START
      else if b = 0x05 then Some PLAYER_INPUT
      else if b = 0x06 then Some GAME_STATE_UPDATE
      else if b = 0x07 then Some PLAYER_POSITION
      else if b = 0x08 then Some COIN_COLLECTED
      else if b = 0x09 then Some PLAYER_DEATH
      else if b = 0x0A then Some GAME_OVER_PACKET
      else if b = 0x0B then Some PLAYER_DISCONNECT
      else None)"

fun TileType_byte :: "TileType \<Rightarrow> byte" where
  "TileType_byte EMPTY = 0"
| "TileType_byte COIN = 1"
| "TileType_byte ELECTRICSQUARE = 2"

fun CoinState_byte :: "CoinState \<Rightarrow> byte" where
  "CoinState_byte AVAILABLE = 0"
| "CoinState_byte COLLECTED_P1 = 1"
| "CoinState_byte COLLECTED_P2 = 2"
| "CoinState_byte COLLECTED_BOTH = 3"

fun PlayerState_byte :: "PlayerState \<Rightarrow> byte" where
  "PlayerState_byte CONNECTED = 0"
| "PlayerState_byte READY = 1"
| "PlayerState_byte PLAYING = 2"
| "PlayerState_byte DEAD = 3"
| "PlayerState_byte FINISHED = 4"
| "PlayerState_byte DISCONNECTED = 5"
| "PlayerState_byte (UNNAMED_STATE b) = b"


text \<open>\<open>static_cast<uint8_t>\<close> and \<open>static_cast<uint16_t>\<close> of an \<open>int\<close>.\<close>

definition to_uint8 :: "int \<Rightarrow> byte" where
  "to_uint8 i = word_of_int i"

definition to_uint16 :: "int \<Rightarrow> 16 word" where
  "to_uint16 i = word_of_int i"

text \<open>
  \<open>static_cast<int16_t>(float)\<close>: the fractional part is discarded. A value outside
  the 16-bit range has no defined result in C++; the model keeps the low 16 bits.
\<close>

definition float_to_int16 :: "real \<Rightarrow> 16 word" where
  "float_to_int16 r = word_of_int (float_to_int r)"

text \<open>\<open>NetworkPacket::addShort\<close>: low byte first.\<close>

definition addShort :: "16 word \<Rightarrow> byte list" where
  "addShort v = [ucast (v AND 0xFF), ucast (drop_bit 8 v AND 0xFF)]"

text \<open>\<open>NetworkPacket::serialize\<close>: the type tag, then the payload.\<close>

definition serialize :: "PacketType \<Rightarrow> byte list \<Rightarrow> byte list" where
  "serialize t payload = PacketType_byte t # payload"

section \<open>The server state (Server.hpp)\<close>

text \<open>
  \<open>m_players\<close> is the socket-keyed player table in iteration order, \<open>m_pollfds\<close> the
  descriptors registered for polling. \<open>sent\<close> logs every \<open>send\<close> call (socket and
  bytes) and \<open>closed\<close> every \<open>close\<close> call, oldest first. The content of the map file
  is an input of the functions that read it: \<open>None\<close> when the file cannot be opened,
  otherwise its lines.
\<close>

record GameServer =
  m_map :: GameMap
  m_serverSocket :: int
  m_pollfds :: "int list"
  m_players :: "(int \<times> Player) list"
  m_gameState :: GameState
  sent :: "(int \<times> byte list) list"
  closed :: "int list"

definition MAX_CLIENTS :: int where "MAX_CLIENTS = 2"
definition MIN_PLAYERS :: int where "MIN_PLAYERS = 2"

section \<open>Broadcaster (Broadcaster.cpp)\<close>

definition sendToClient :: "int \<Rightarrow> byte list \<Rightarrow> GameServer \<Rightarrow> GameServer" where
  "sendToClient clientSocket data s = s\<lparr> sent := sent s @ [(clientSocket, data)] \<rparr>"

definition broadcastToAll :: "byte list \<Rightarrow> GameServer \<Rightarrow> GameServer" where
  "broadcastToAll data s =
     s\<lparr> sent := sent s @ map (\<lambda>entry. (fst entry, data)) (m_players s) \<rparr>"

definition broadcastGameStart :: "GameServer \<Rightarrow> GameServer" where
  "broadcastGameStart s =
     broadcastToAll (serialize GAME_START [to_uint8 (int (length (m_players s))), 0]) s"

text \<open>The ten bytes of one player in a GAME_STATE_UPDATE.\<close>

definition playerStateBytes :: "Player \<Rightarrow> byte list" where
  "playerStateBytes player =
     [to_uint8 (m_id player), PlayerState_byte (m_state player)]
     @ addShort (float_to_int16 (pos_x (m_position player) * 100))
     @ addShort (float_to_int16 (pos_y (m_position player) * 100))
     @ addShort (to_uint16 (m_score player))
     @ [if m_isJetpacking player then 1 else 0, 0]"

definition gameStatePacket :: "(int \<times> Player) list \<Rightarrow> byte list" where
  "gameStatePacket players =
     serialize GAME_STATE_UPDATE
       (to_uint8 (int (length players)) # concat (map (\<lambda>entry. playerStateBytes (snd entry)) players))"

definition broadcastGameState :: "GameServer \<Rightarrow> GameServer" where
  "broadcastGameState s = broadcastToAll (gameStatePacket (m_players s)) s"

definition broadcastCoinCollected ::
    "int \<Rightarrow> int \<Rightarrow> int \<Rightarrow> CoinState \<Rightarrow> GameServer \<Rightarrow> GameServer" where
  "broadcastCoinCollected playerId cx cy coinState s =
     (let score = (case find (\<lambda>entry. m_id (snd entry) = playerId) (m_players s) of
                     None \<Rightarrow> 0
                   | Some entry \<Rightarrow> m_score (snd entry))
      in broadcastToAll
           (serialize COIN_COLLECTED
              [to_uint8 playerId, to_uint8 cx, to_uint8 cy, to_uint8 score,
               CoinState_byte coinState]) s)"

definition broadcastPlayerDeath :: "int \<Rightarrow> GameServer \<Rightarrow> GameServer" where
  "broadcastPlayerDeath playerId s =
     broadcastToAll (serialize PLAYER_DEATH [to_uint8 playerId]) s"

definition gameOverPacket :: "int \<Rightarrow> byte list" where
  "gameOverPacket winnerId =
     (let hasWinner = (winnerId > 0)
      in serialize GAME_OVER_PACKET
           [to_uint8 (if hasWinner then 1 else 0), to_uint8 (if hasWinner then winnerId else 0)])"

definition broadcastGameOver :: "int \<Rightarrow> GameServer \<Rightarrow> GameServer" where
  "broadcastGameOver winnerId s = broadcastToAll (gameOverPacket winnerId) s"

section \<open>GameServer (Server.cpp)\<close>

subsection \<open>Loading the map\<close>

definition tileOfChar :: "char \<Rightarrow> TileType" where
  "tileOfChar c =
     (if c = CHR ''_'' then EMPTY
      else if c = CHR ''c'' then COIN
      else if c = CHR ''e'' then ELECTRICSQUARE
      else EMPTY)"

text \<open>The double loop that writes \<open>m_map.tiles[y][x]\<close> from \<open>lines[y][x]\<close>.\<close>

definition fillTiles :: "string list \<Rightarrow> int \<Rightarrow> int \<Rightarrow> TileType list list \<Rightarrow> fault + TileType list list" where
  "fillTiles lines h w t =
     forEachF (\<lambda>y t.
         forEachF (\<lambda>x t. grid_set t y x (tileOfChar (lines ! nat y ! nat x))) [0..w - 1] t)
       [0..h - 1] t"

definition loadMap :: "string list option \<Rightarrow> GameMap \<Rightarrow> fault + (bool \<times> GameMap)" where
  "loadMap file gmap =
     (case file of
        None \<Rightarrow> Inr (False, gmap)
      | Some content \<Rightarrow>
          let lines = filter (\<lambda>line. line \<noteq> []) content in
          if lines = [] then Inr (False, gmap)
          else
            let gmap = gmap\<lparr> height := int (length lines) \<rparr>;
                gmap = gmap\<lparr> width := int (length (lines ! 0)) \<rparr>
            in
            if list_ex (\<lambda>line. int (length line) \<noteq> width gmap) lines then Inr (False, gmap)
            else
              let gmap = gmap\<lparr> tiles :=
                           vec_resize (nat (height gmap)) (replicate (nat (width gmap)) EMPTY)
                             (tiles gmap) \<rparr>;
                  gmap = gmap\<lparr> coinStates :=
                           vec_resize (nat (height gmap)) (replicate (nat (width gmap)) AVAILABLE)
                             (coinStates gmap) \<rparr>
              in bindF (fillTiles lines (height gmap) (width gmap) (tiles gmap))
                   (\<lambda>t. Inr (True, gmap\<lparr> tiles := t \<rparr>)))"

text \<open>The state of a server whose constructor has run: the listening socket is registered.\<close>

definition emptyMap :: GameMap where
  "emptyMap = \<lparr> width = 0, height = 0, tiles = [], coinStates = [] \<rparr>"

definition newGameServer :: "string list option \<Rightarrow> int \<Rightarrow> fault + GameServer" where
  "newGameServer file serverSocket =
     bindF (loadMap file emptyMap) (\<lambda>(ok, gmap).
       if \<not> ok then Inl MapLoaderException
       else Inr \<lparr> m_map = gmap, m_serverSocket = serverSocket, m_pollfds = [serverSocket],
                  m_players = [], m_gameState = WAITING_FOR_PLAYERS, sent = [], closed = [] \<rparr>)"

subsection \<open>Connections\<close>

definition sendConnectResponse :: "int \<Rightarrow> int \<Rightarrow> GameServer \<Rightarrow> GameServer" where
  "sendConnectResponse clientSocket playerId s =
     sendToClient clientSocket
       (serialize CONNECT_RESPONSE [to_uint8 playerId, to_uint8 (int (length (m_players s)))]) s"

text \<open>The bytes of a grid, row by row, for the cells below \<open>height\<close> and \<open>width\<close>.\<close>

definition gridBytes :: "('a \<Rightarrow> byte) \<Rightarrow> 'a list list \<Rightarrow> int \<Rightarrow> int \<Rightarrow> fault + byte list" where
  "gridBytes f g h w =
     forEachF (\<lambda>y acc.
         forEachF (\<lambda>x acc. bindF (grid_at g y x) (\<lambda>v. Inr (acc @ [f v]))) [0..w - 1] acc)
       [0..h - 1] []"

definition sendMapData :: "int \<Rightarrow> GameServer \<Rightarrow> fault + GameServer" where
  "sendMapData clientSocket s =
     (let gmap = m_map s in
      bindF (gridBytes TileType_byte (tiles gmap) (height gmap) (width gmap)) (\<lambda>tileBytes.
      bindF (gridBytes CoinState_byte (coinStates gmap) (height gmap) (width gmap)) (\<lambda>coinBytes.
        Inr (sendToClient clientSocket
               (serialize MAP_DATA
                  (addShort (to_uint16 (width gmap)) @ addShort (to_uint16 (height gmap))
                   @ tileBytes @ coinBytes)) s))))"

definition checkGameStart :: "GameServer \<Rightarrow> GameServer" where
  "checkGameStart s =
     (if m_gameState s \<noteq> WAITING_FOR_PLAYERS then s
      else
        let readyPlayersCount = int (length (m_players s)) in
        if readyPlayersCount \<ge> MIN_PLAYERS then
          let s = s\<lparr> m_gameState := IN_PROGRESS \<rparr>;
              s = s\<lparr> m_players :=
                      map (\<lambda>(sock, player).
                             (sock, setPosition 1 (real_of_int (height (m_map s)) - 2)
                                      (player\<lparr> m_state := READY \<rparr>)))
                        (m_players s) \<rparr>;
              s = broadcastGameStart s
          in broadcastGameState s
        else s)"

text \<open>
  \<open>unordered_map::emplace\<close>: a key already in the table is left as it is. Where a new
  entry stands in the iteration order is not fixed by the language; the model puts it
  last, and the theorems on iteration order below are stated for every table.
\<close>

definition emplace :: "int \<Rightarrow> Player \<Rightarrow> (int \<times> Player) list \<Rightarrow> (int \<times> Player) list" where
  "emplace k v table = (if map_of table k = None then table @ [(k, v)] else table)"

text \<open>
  \<open>acceptNewClient\<close>. The argument is what \<open>accept\<close> returned: the new descriptor, or
  a negative number when there was no connection to accept.
\<close>

definition acceptNewClient :: "int \<Rightarrow> GameServer \<Rightarrow> fault + GameServer" where
  "acceptNewClient clientSocket s =
     (if clientSocket < 0 then Inr s
      else
        let s = s\<lparr> m_pollfds := m_pollfds s @ [clientSocket] \<rparr>;
            newPlayerId = int (length (m_players s)) + 1;
            s = s\<lparr> m_players :=
                    emplace clientSocket (newPlayer clientSocket newPlayerId) (m_players s) \<rparr>;
            s = sendConnectResponse clientSocket newPlayerId s
        in bindF (sendMapData clientSocket s) (\<lambda>s. Inr (checkGameStart s)))"

definition handleClientDisconnect :: "int \<Rightarrow> GameServer \<Rightarrow> GameServer" where
  "handleClientDisconnect clientSocket s =
     (let s = s\<lparr> m_players := filter (\<lambda>entry. fst entry \<noteq> clientSocket) (m_players s) \<rparr>;
          s = (if clientSocket \<in> set (m_pollfds s)
               then s\<lparr> closed := closed s @ [clientSocket],
                       m_pollfds := remove1 clientSocket (m_pollfds s) \<rparr>
               else s)
      in
      if m_gameState s = IN_PROGRESS then
        let activePlayers =
              int (length (filter (\<lambda>entry. m_state (snd entry) = PLAYING) (m_players s)))
        in
        if activePlayers < MIN_PLAYERS
        then broadcastGameOver (- 1) (s\<lparr> m_gameState := GAME_OVER \<rparr>)
        else s
      else s)"

definition handlePlayerInput :: "int \<Rightarrow> byte list \<Rightarrow> GameServer \<Rightarrow> GameServer" where
  "handlePlayerInput clientSocket data s =
     (if length data < 2 then s
      else
        let isJetpacking = (data ! 1 \<noteq> 0) in
        s\<lparr> m_players :=
             map (\<lambda>(sock, player).
                    if sock = clientSocket \<and> m_state player = PLAYING
                    then (sock, player\<lparr> m_isJetpacking := isJetpacking \<rparr>)
                    else (sock, player))
               (m_players s) \<rparr>)"

definition processPacket :: "int \<Rightarrow> byte list \<Rightarrow> GameServer \<Rightarrow> GameServer" where
  "processPacket clientSocket data s =
     (if length data < 1 then s
      else
        (case PacketType_of_byte (data ! 0) of
           Some CONNECT_REQUEST \<Rightarrow> s
         | Some PLAYER_INPUT \<Rightarrow> handlePlayerInput clientSocket data s
         | Some PLAYER_DISCONNECT \<Rightarrow> handleClientDisconnect clientSocket s
         | _ \<Rightarrow> s))"

text \<open>What \<open>recv\<close> returned on a client socket.\<close>

datatype recv_result = Received "byte list" | PeerClosed | WouldBlock | RecvError

definition handleClientData :: "int \<Rightarrow> recv_result \<Rightarrow> GameServer \<Rightarrow> GameServer" where
  "handleClientData clientSocket r s =
     (case r of
        Received buffer \<Rightarrow>
          (if buffer = [] then handleClientDisconnect clientSocket s
           else processPacket clientSocket buffer s)
      | PeerClosed \<Rightarrow> handleClientDisconnect clientSocket s
      | WouldBlock \<Rightarrow> s
      | RecvError \<Rightarrow> handleClientDisconnect clientSocket s)"

subsection \<open>The game tick\<close>

definition updatePlayer :: "GameMap \<Rightarrow> Player \<Rightarrow> Player" where
  "updatePlayer gmap player =
     (if m_state player \<noteq> PLAYING then player
      else
        let player = applyPhysics player;
            player = checkBounds player gmap
        in if pos_x (m_position player) \<ge> real_of_int (width gmap)
           then player\<lparr> m_state := FINISHED \<rparr>
           else player)"

definition updatePlayers :: "GameServer \<Rightarrow> GameServer" where
  "updatePlayers s =
     s\<lparr> m_players := map (\<lambda>(sock, player). (sock, updatePlayer (m_map s) player)) (m_players s) \<rparr>"

text \<open>
  The body of the loop of \<open>checkCollisions\<close> for one player: the map and the player
  after it, and the broadcast it asks for.
\<close>

datatype notification =
  CoinCollectedNote int int int CoinState | PlayerDeathNote int

definition alreadyCollectedBy :: "int \<Rightarrow> CoinState \<Rightarrow> bool" where
  "alreadyCollectedBy playerId currentState =
     (if playerId = 1 \<and> (currentState = COLLECTED_P1 \<or> currentState = COLLECTED_BOTH) then True
      else if playerId = 2 \<and> (currentState = COLLECTED_P2 \<or> currentState = COLLECTED_BOTH) then True
      else False)"

definition collide :: "GameMap \<Rightarrow> Player \<Rightarrow> fault + (GameMap \<times> Player \<times> notification option)" where
  "collide gmap player =
     (if m_state player \<noteq> PLAYING then Inr (gmap, player, None)
      else
        let cell_x = float_to_int (pos_x (m_position player));
            cell_y = float_to_int (pos_y (m_position player))
        in
        if cell_x \<ge> 0 \<and> cell_x < width gmap \<and> cell_y \<ge> 0 \<and> cell_y < height gmap then
          bindF (grid_at (tiles gmap) cell_y cell_x) (\<lambda>tile.
            if tile = COIN then
              bindF (grid_at (coinStates gmap) cell_y cell_x) (\<lambda>currentState.
                let playerId = m_id player in
                if alreadyCollectedBy playerId currentState then Inr (gmap, player, None)
                else
                  let player = player\<lparr> m_score := m_score player + 1 \<rparr> in
                  bindF
                    (if currentState = AVAILABLE then
                       bindF (grid_set (coinStates gmap) cell_y cell_x
                                (if playerId = 1 then COLLECTED_P1 else COLLECTED_P2))
                         (\<lambda>cs. Inr (gmap\<lparr> coinStates := cs \<rparr>))
                     else if (currentState = COLLECTED_P1 \<and> playerId = 2)
                            \<or> (currentState = COLLECTED_P2 \<and> playerId = 1) then
                       bindF (grid_set (coinStates gmap) cell_y cell_x COLLECTED_BOTH) (\<lambda>cs.
                       bindF (grid_set (tiles gmap) cell_y cell_x EMPTY) (\<lambda>ts.
                         Inr (gmap\<lparr> coinStates := cs, tiles := ts \<rparr>)))
                     else Inr gmap)
                    (\<lambda>gmap.
                       bindF (grid_at (coinStates gmap) cell_y cell_x) (\<lambda>newState.
                         Inr (gmap, player,
                              Some (CoinCollectedNote (m_id player) cell_x cell_y newState)))))
            else if tile = ELECTRICSQUARE then
              Inr (gmap, player\<lparr> m_state := DEAD \<rparr>, Some (PlayerDeathNote (m_id player)))
            else Inr (gmap, player, None))
        else Inr (gmap, player, None))"

definition notify :: "notification option \<Rightarrow> GameServer \<Rightarrow> GameServer" where
  "notify n s =
     (case n of
        None \<Rightarrow> s
      | Some (CoinCollectedNote playerId cx cy coinState) \<Rightarrow>
          broadcastCoinCollected playerId cx cy coinState s
      | Some (PlayerDeathNote playerId) \<Rightarrow> broadcastPlayerDeath playerId s)"

text \<open>One iteration of \<open>checkCollisions\<close>, on the \<open>i\<close>-th entry of the table.\<close>

definition collidePlayer :: "nat \<Rightarrow> GameServer \<Rightarrow> fault + GameServer" where
  "collidePlayer i s =
     (let entry = m_players s ! i in
      bindF (collide (m_map s) (snd entry)) (\<lambda>(gmap, player, n).
        Inr (notify n
               (s\<lparr> m_map := gmap, m_players := (m_players s)[i := (fst entry, player)] \<rparr>))))"

definition checkCollisions :: "GameServer \<Rightarrow> fault + GameServer" where
  "checkCollisions s = forEachF collidePlayer [0..<length (m_players s)] s"

text \<open>The first loop of \<open>checkGameEnd\<close>: \<open>(allFinished, anyDead, activePlayersCount)\<close>.\<close>

fun endFlags :: "(int \<times> Player) list \<Rightarrow> bool \<times> bool \<times> int \<Rightarrow> bool \<times> bool \<times> int" where
  "endFlags [] flags = flags"
| "endFlags (entry # rest) (allFinished, anyDead, activePlayersCount) =
     (if m_state (snd entry) = PLAYING then endFlags rest (False, anyDead, activePlayersCount + 1)
      else if m_state (snd entry) = FINISHED then endFlags rest (allFinished, anyDead, activePlayersCount + 1)
      else if m_state (snd entry) = DEAD then endFlags rest (allFinished, True, activePlayersCount)
      else endFlags rest (allFinished, anyDead, activePlayersCount))"

text \<open>
  The second loop of \<open>checkGameEnd\<close>, with its \<open>break\<close>: the accumulators are
  \<open>winnerId\<close> and \<open>highestScore\<close>.
\<close>

fun winnerLoop :: "bool \<Rightarrow> (int \<times> Player) list \<Rightarrow> int \<Rightarrow> int \<Rightarrow> int" where
  "winnerLoop anyDead [] winnerId highestScore = winnerId"
| "winnerLoop anyDead (entry # rest) winnerId highestScore =
     (if anyDead \<and> m_state (snd entry) \<noteq> DEAD then m_id (snd entry)
      else if m_score (snd entry) > highestScore
           then winnerLoop anyDead rest (m_id (snd entry)) (m_score (snd entry))
           else winnerLoop anyDead rest winnerId highestScore)"

definition selectWinner :: "bool \<Rightarrow> (int \<times> Player) list \<Rightarrow> int" where
  "selectWinner anyDead players = winnerLoop anyDead players (- 1) (- 1)"

definition resetGame :: "string list option \<Rightarrow> GameServer \<Rightarrow> fault + GameServer" where
  "resetGame file s =
     (let s = s\<lparr> closed := closed s @ map fst (m_players s) \<rparr>;
          s = s\<lparr> m_players := [] \<rparr>;
          s = s\<lparr> m_pollfds := [m_serverSocket s] \<rparr>
      in bindF (loadMap file (m_map s)) (\<lambda>(ok, gmap).
           if \<not> ok then Inl MapLoaderException
           else Inr (s\<lparr> m_map := gmap, m_gameState := WAITING_FOR_PLAYERS \<rparr>)))"

definition endCondition :: "(int \<times> Player) list \<Rightarrow> bool" where
  "endCondition players =
     (case endFlags players (True, False, 0) of
        (allFinished, anyDead, activePlayersCount) \<Rightarrow>
          (allFinished \<and> activePlayersCount > 0) \<or> anyDead
          \<or> (activePlayersCount < MIN_PLAYERS \<and> int (length players) \<ge> MIN_PLAYERS))"

definition checkGameEnd :: "string list option \<Rightarrow> GameServer \<Rightarrow> fault + GameServer" where
  "checkGameEnd file s =
     (case endFlags (m_players s) (True, False, 0) of
        (allFinished, anyDead, activePlayersCount) \<Rightarrow>
          if (allFinished \<and> activePlayersCount > 0) \<or> anyDead
             \<or> (activePlayersCount < MIN_PLAYERS \<and> int (length (m_players s)) \<ge> MIN_PLAYERS)
          then
            let s = s\<lparr> m_gameState := GAME_OVER \<rparr>;
                winnerId = selectWinner anyDead (m_players s);
                s = broadcastGameOver winnerId s
            in resetGame file s
          else Inr s)"

definition updateGameState :: "string list option \<Rightarrow> GameServer \<Rightarrow> fault + GameServer" where
  "updateGameState file s =
     (if m_gameState s \<noteq> IN_PROGRESS then Inr s
      else
        let anyPlaying = list_ex (\<lambda>entry. m_state (snd entry) = PLAYING) (m_players s);
            allReady = list_all (\<lambda>entry. m_state (snd entry) = PLAYING
                                         \<or> m_state (snd entry) = READY) (m_players s)
        in
        if allReady \<and> \<not> anyPlaying then
          let s = s\<lparr> m_players :=
                      map (\<lambda>(sock, player).
                             if m_state player = READY
                             then (sock, player\<lparr> m_state := PLAYING \<rparr>)
                             else (sock, player))
                        (m_players s) \<rparr>
          in Inr (broadcastGameState s)
        else
          let s = updatePlayers s in
          bindF (checkCollisions s) (\<lambda>s. checkGameEnd file (broadcastGameState s)))"

text \<open>
  One round of the loop of \<open>start\<close> handles the events that \<open>poll\<close> reported and then
  runs the tick. The events of \<open>handleSocketEvents\<close>, one at a time:
\<close>

datatype event =
  NewConnection int | ClientReadable int recv_result | ClientHangup int | Tick

definition serverStep :: "string list option \<Rightarrow> event \<Rightarrow> GameServer \<Rightarrow> fault + GameServer" where
  "serverStep file e s =
     (case e of
        NewConnection clientSocket \<Rightarrow> acceptNewClient clientSocket s
      | ClientReadable clientSocket r \<Rightarrow> Inr (handleClientData clientSocket r s)
      | ClientHangup clientSocket \<Rightarrow> Inr (handleClientDisconnect clientSocket s)
      | Tick \<Rightarrow> updateGameState file s)"

definition serverRun :: "string list option \<Rightarrow> event list \<Rightarrow> GameServer \<Rightarrow> fault + GameServer" where
  "serverRun file es s = forEachF (serverStep file) es s"

section \<open>The client's decoder (NetworkClient.cpp)\<close>

text \<open>
  \<open>data[lo] | (data[hi] << 8)\<close> on bytes promoted to \<open>int\<close>: a value from 0 to 65535.
\<close>

definition le16 :: "byte \<Rightarrow> byte \<Rightarrow> int" where
  "le16 lo hi = uint lo OR push_bit 8 (uint hi)"

text \<open>
  \<open>getPacketSize(data, maxSize)\<close>: the argument is the \<open>maxSize\<close> bytes that \<open>data\<close>
  points to. The 32-bit \<open>int\<close> product \<open>width * height * 2\<close> wraps around, and its sum
  with 5 is converted to the 64-bit \<open>size_t\<close>.
\<close>

definition mapDataSize :: "int \<Rightarrow> int \<Rightarrow> nat" where
  "mapDataSize w h =
     unat (scast (5 + (word_of_int w * word_of_int h * 2 :: 32 word)) :: 64 word)"

definition getPacketSize :: "byte list \<Rightarrow> nat" where
  "getPacketSize data =
     (let maxSize = length data in
      if maxSize < 1 then 0
      else
        (case PacketType_of_byte (data ! 0) of
           Some CONNECT_RESPONSE \<Rightarrow> (if maxSize \<ge> 3 then 3 else 0)
         | Some MAP_DATA \<Rightarrow>
             (if maxSize < 5 then 0
              else
                let w = le16 (data ! 1) (data ! 2);
                    h = le16 (data ! 3) (data ! 4);
                    expectedSize = mapDataSize w h
                in if maxSize \<ge> expectedSize then expectedSize else 0)
         | Some GAME_START \<Rightarrow> (if maxSize \<ge> 3 then 3 else 0)
         | Some GAME_STATE_UPDATE \<Rightarrow>
             (if maxSize < 2 then 0
              else
                let playerCount = unat (data ! 1);
                    expectedSize = 2 + playerCount * 10
                in if maxSize \<ge> expectedSize then expectedSize else 0)
         | Some COIN_COLLECTED \<Rightarrow> (if maxSize \<ge> 6 then 6 else 0)
         | Some PLAYER_DEATH \<Rightarrow> (if maxSize \<ge> 2 then 2 else 0)
         | Some GAME_OVER_PACKET \<Rightarrow> (if maxSize \<ge> 3 then 3 else 0)
         | Some PLAYER_INPUT \<Rightarrow> (if maxSize \<ge> 2 then 2 else 0)
         | _ \<Rightarrow> 0))"

text \<open>
  The inner loop of \<open>networkLoop\<close> over the accumulated buffer: \<open>processedBytes\<close>
  and the packets handed to \<open>processPacket\<close>, in order.
\<close>

function consumePackets :: "byte list \<Rightarrow> nat \<Rightarrow> byte list list \<Rightarrow> nat \<times> byte list list" where
  "consumePackets accumulatedBuffer processedBytes packets =
     (if processedBytes < length accumulatedBuffer then
        let packetSize = getPacketSize (drop processedBytes accumulatedBuffer) in
        if packetSize = 0 then (processedBytes, packets)
        else consumePackets accumulatedBuffer (processedBytes + packetSize)
               (packets @ [take packetSize (drop processedBytes accumulatedBuffer)])
      else (processedBytes, packets))"
  by pat_completeness auto
termination
  by (relation "measure (\<lambda>(accumulatedBuffer, processedBytes, packets).
        length accumulatedBuffer - processedBytes)") auto

text \<open>
  What \<open>networkLoop\<close> does with the bytes of one successful \<open>recv\<close>: the buffer it
  retains for the next read, and the packets it dispatched.
\<close>

definition receiveBytes :: "byte list \<Rightarrow> byte list \<Rightarrow> byte list \<times> byte list list" where
  "receiveBytes accumulatedBuffer received =
     (let accumulatedBuffer = accumulatedBuffer @ received in
      case consumePackets accumulatedBuffer 0 [] of
        (processedBytes, packets) \<Rightarrow>
          (if processedBytes > 0 then drop processedBytes accumulatedBuffer
           else accumulatedBuffer,
           packets))"





section \<open>Runs and concrete inputs\<close>



text \<open>A map file of one row, an empty tile and a coin, and the server started on it.\<close>

definition demoFile :: "string list option" where
  "demoFile = Some [''_c'']"

definition demoMap :: GameMap where
  "demoMap = \<lparr> width = 2, height = 1, tiles = [[EMPTY, COIN]],
               coinStates = [[AVAILABLE, AVAILABLE]] \<rparr>"

definition demoServer :: GameServer where
  "demoServer = \<lparr> m_map = demoMap, m_serverSocket = 3, m_pollfds = [3], m_players = [],
                  m_gameState = WAITING_FOR_PLAYERS, sent = [], closed = [] \<rparr>"

text \<open>A player of the match on \<open>demoMap\<close>: socket, id, position, score and state.\<close>

definition demoPlayer :: "int \<Rightarrow> int \<Rightarrow> real \<Rightarrow> real \<Rightarrow> int \<Rightarrow> PlayerState \<Rightarrow> Player" where
  "demoPlayer sock pid px py score st =
     (setPosition px py (newPlayer sock pid))\<lparr> m_score := score, m_state := st \<rparr>"

text \<open>
  The match at the call of \<open>checkGameEnd\<close> in the tick in which both players reach the
  end of the map, each with the one coin collected.
\<close>

definition tieServer :: GameServer where
  "tieServer =
     \<lparr> m_map = \<lparr> width = 2, height = 1, tiles = [[EMPTY, EMPTY]],
                  coinStates = [[AVAILABLE, COLLECTED_BOTH]] \<rparr>,
       m_serverSocket = 3, m_pollfds = [3, 4, 5],
       m_players = [(4, demoPlayer 4 1 2 0 1 FINISHED), (5, demoPlayer 5 2 2 0 1 FINISHED)],
       m_gameState = IN_PROGRESS, sent = [], closed = [] \<rparr>"



section \<open>Properties of the physics step\<close>


section \<open>Bounds\<close>

text \<open>
  C9, as the code has it. On a map of height at least 1 (every map that \<open>loadMap\<close>
  accepts), \<open>checkBounds\<close> applied twice gives the same player as applied once: a
  player above the map (\<open>y < 0\<close>) is put at \<open>y = 0\<close> with vertical velocity 0, a player
  at or below the last row (\<open>y \<ge> height - 1\<close>) is put at \<open>y = height - 1\<close> with vertical
  velocity 0, and \<open>x\<close> is never changed.
\<close>

theorem checkBounds_idempotent:
  assumes "1 \<le> height gmap"
  shows "checkBounds (checkBounds p gmap) gmap = checkBounds p gmap
     \<and> (pos_y (m_position p) < 0 \<longrightarrow>
          pos_y (m_position (checkBounds p gmap)) = 0 \<and> m_velocityY (checkBounds p gmap) = 0)
     \<and> (pos_y (m_position p) \<ge> real_of_int (height gmap) - 1 \<longrightarrow>
          pos_y (m_position (checkBounds p gmap)) = real_of_int (height gmap) - 1
          \<and> m_velocityY (checkBounds p gmap) = 0)
     \<and> pos_x (m_position (checkBounds p gmap)) = pos_x (m_position p)"
  using assms by (auto simp: checkBounds_def setPosition_def Let_def)

theorem checkBounds_idempotent_witness:
  "1 \<le> height demoMap
   \<and> checkBounds (checkBounds (demoPlayer 4 1 1 (- 2) 0 PLAYING) demoMap) demoMap
       = checkBounds (demoPlayer 4 1 1 (- 2) 0 PLAYING) demoMap
   \<and> pos_y (m_position (checkBounds (demoPlayer 4 1 1 (- 2) 0 PLAYING) demoMap)) = 0
   \<and> pos_x (m_position (checkBounds (demoPlayer 4 1 1 (- 2) 0 PLAYING) demoMap)) = 1"
proof -
  have h: "1 \<le> height demoMap"
    by (simp add: demoMap_def)
  have y: "pos_y (m_position (demoPlayer 4 1 1 (- 2) 0 PLAYING)) < 0"
    and x: "pos_x (m_position (demoPlayer 4 1 1 (- 2) 0 PLAYING)) = 1"
    by (simp_all add: demoPlayer_def setPosition_def)
  from checkBounds_idempotent [OF h, of "demoPlayer 4 1 1 (- 2) 0 PLAYING"] h y x
  show ?thesis by simp
qed

text \<open>
  C9 as stated, for every map, fails on a map of height 0 (the default-constructed
  \<open>GameMap\<close>): a player at \<open>y = -2\<close> is put at \<open>y = 0\<close> by the first application and
  at \<open>y = -1\<close> by the second.
\<close>

theorem checkBounds_degenerate_counterexample:
  "pos_y (m_position (checkBounds (demoPlayer 4 1 1 (- 2) 0 PLAYING) emptyMap)) = 0
   \<and> pos_y (m_position
        (checkBounds (checkBounds (demoPlayer 4 1 1 (- 2) 0 PLAYING) emptyMap) emptyMap)) = - 1
   \<and> checkBounds (checkBounds (demoPlayer 4 1 1 (- 2) 0 PLAYING) emptyMap) emptyMap
       \<noteq> checkBounds (demoPlayer 4 1 1 (- 2) 0 PLAYING) emptyMap"
proof -
  have once: "m_position (checkBounds (demoPlayer 4 1 1 (- 2) 0 PLAYING) emptyMap)
      = \<lparr> pos_x = 1, pos_y = 0 \<rparr>"
    by (simp add: checkBounds_def demoPlayer_def setPosition_def newPlayer_def emptyMap_def Let_def)
  have twice: "m_position
      (checkBounds (checkBounds (demoPlayer 4 1 1 (- 2) 0 PLAYING) emptyMap) emptyMap)
      = \<lparr> pos_x = 1, pos_y = - 1 \<rparr>"
    by (simp add: checkBounds_def demoPlayer_def setPosition_def newPlayer_def emptyMap_def Let_def)
  have "pos_y (m_position (checkBounds (demoPlayer 4 1 1 (- 2) 0 PLAYING) emptyMap))
      \<noteq> pos_y (m_position
          (checkBounds (checkBounds (demoPlayer 4 1 1 (- 2) 0 PLAYING) emptyMap) emptyMap))"
    by (simp add: once twice)
  then have "checkBounds (checkBounds (demoPlayer 4 1 1 (- 2) 0 PLAYING) emptyMap) emptyMap
       \<noteq> checkBounds (demoPlayer 4 1 1 (- 2) 0 PLAYING) emptyMap"
    by metis
  then show ?thesis by (simp add: once twice)
qed

section \<open>The winner of a match\<close>

lemma winnerLoop_first_alive:
  "find (\<lambda>e. m_state (snd e) \<noteq> DEAD) players = Some e \<Longrightarrow>
   winnerLoop True players w h = m_id (snd e)"
  by (induction players arbitrary: w h) (auto split: if_splits)

lemma winnerLoop_no_better:
  "\<forall>e\<in>set players. m_score (snd e) \<le> h \<Longrightarrow> winnerLoop False players w h = w"
  by (induction players arbitrary: w h) auto

lemma winnerLoop_first_max:
  "i < length players \<Longrightarrow> h < m_score (snd (players ! i)) \<Longrightarrow>
   \<forall>j<length players. m_score (snd (players ! j)) \<le> m_score (snd (players ! i)) \<Longrightarrow>
   \<forall>j<i. m_score (snd (players ! j)) < m_score (snd (players ! i)) \<Longrightarrow>
   winnerLoop False players w h = m_id (snd (players ! i))"
proof (induction players arbitrary: i w h)
  case Nil
  then show ?case by simp
next
  case (Cons entry rest)
  show ?case
  proof (cases i)
    case 0
    have "\<forall>e\<in>set rest. m_score (snd e) \<le> m_score (snd entry)"
    proof
      fix e assume "e \<in> set rest"
      then obtain k where "k < length rest" "rest ! k = e"
        by (auto simp: in_set_conv_nth)
      with Cons.prems(3) 0 show "m_score (snd e) \<le> m_score (snd entry)"
        by (metis Suc_less_eq length_Cons nth_Cons_0 nth_Cons_Suc)
    qed
    with Cons.prems(2) 0 show ?thesis
      by (simp add: winnerLoop_no_better)
  next
    case (Suc k)
    have k: "k < length rest" using Cons.prems(1) Suc by simp
    have lt: "m_score (snd entry) < m_score (snd (rest ! k))"
      using Cons.prems(4) Suc by (metis nth_Cons_0 nth_Cons_Suc zero_less_Suc)
    have le: "\<forall>j<length rest. m_score (snd (rest ! j)) \<le> m_score (snd (rest ! k))"
      using Cons.prems(3) Suc by (metis Suc_less_eq length_Cons nth_Cons_Suc)
    have first: "\<forall>j<k. m_score (snd (rest ! j)) < m_score (snd (rest ! k))"
      using Cons.prems(4) Suc by (metis Suc_less_eq nth_Cons_Suc)
    have h: "h < m_score (snd (rest ! k))" using Cons.prems(2) Suc by simp
    show ?thesis
    proof (cases "h < m_score (snd entry)")
      case True
      then show ?thesis
        using Cons.IH [OF k lt le first] Suc by simp
    next
      case False
      then show ?thesis
        using Cons.IH [OF k h le first] Suc by simp
    qed
  qed
qed

lemma endFlags_anyDead:
  "fst (snd (endFlags players (af, ad, n))) = (ad \<or> (\<exists>e\<in>set players. m_state (snd e) = DEAD))"
  by (induction players arbitrary: af ad n) auto

lemma resetGame_sent: "resetGame file s = Inr s' \<Longrightarrow> sent s' = sent s"
  by (auto simp: resetGame_def bindF_def Let_def split: sum.splits prod.splits if_splits)

text \<open>
  C3, as the code has it. When an end condition fires and the map reloads, every player
  is sent one GAME_OVER packet with the same winner \<open>w\<close>. If a player died, \<open>w\<close> is the
  id of the first player in iteration order that is not dead. If no player died, \<open>w\<close> is
  the id of the player with the highest score, and among players with that score the
  one encountered first in the scan wins: the comparison is strict, so a later player
  with an equal score does not replace an earlier one.
\<close>

theorem checkGameEnd_winner:
  assumes fires: "endCondition (m_players s)"
    and ok: "checkGameEnd file s = Inr s'"
  shows "\<exists>w. sent s' = sent s @ map (\<lambda>entry. (fst entry, gameOverPacket w)) (m_players s)
     \<and> ((\<exists>d\<in>set (m_players s). m_state (snd d) = DEAD) \<longrightarrow>
          (\<forall>e. find (\<lambda>e. m_state (snd e) \<noteq> DEAD) (m_players s) = Some e \<longrightarrow> w = m_id (snd e)))
     \<and> ((\<forall>d\<in>set (m_players s). m_state (snd d) \<noteq> DEAD) \<longrightarrow>
          (\<forall>i<length (m_players s).
             0 \<le> m_score (snd (m_players s ! i))
             \<and> (\<forall>j<length (m_players s).
                   m_score (snd (m_players s ! j)) \<le> m_score (snd (m_players s ! i)))
             \<and> (\<forall>j<i. m_score (snd (m_players s ! j)) < m_score (snd (m_players s ! i)))
             \<longrightarrow> w = m_id (snd (m_players s ! i))))"
proof -
  obtain af ad n where flags: "endFlags (m_players s) (True, False, 0) = (af, ad, n)"
    by (cases "endFlags (m_players s) (True, False, 0)") auto
  have ad: "ad = (\<exists>e\<in>set (m_players s). m_state (snd e) = DEAD)"
    using endFlags_anyDead [of "m_players s" True False 0] flags by simp
  let ?w = "selectWinner ad (m_players s)"
  have reset: "resetGame file (broadcastGameOver ?w (s\<lparr> m_gameState := GAME_OVER \<rparr>)) = Inr s'"
    using fires ok flags by (simp add: checkGameEnd_def endCondition_def Let_def)
  have sent: "sent s' = sent s @ map (\<lambda>entry. (fst entry, gameOverPacket ?w)) (m_players s)"
    using resetGame_sent [OF reset] by (simp add: broadcastGameOver_def broadcastToAll_def)
  have dead: "(\<exists>d\<in>set (m_players s). m_state (snd d) = DEAD) \<longrightarrow>
          (\<forall>e. find (\<lambda>e. m_state (snd e) \<noteq> DEAD) (m_players s) = Some e \<longrightarrow> ?w = m_id (snd e))"
    using ad by (auto simp: selectWinner_def winnerLoop_first_alive)
  have score: "(\<forall>d\<in>set (m_players s). m_state (snd d) \<noteq> DEAD) \<longrightarrow>
          (\<forall>i<length (m_players s).
             0 \<le> m_score (snd (m_players s ! i))
             \<and> (\<forall>j<length (m_players s).
                   m_score (snd (m_players s ! j)) \<le> m_score (snd (m_players s ! i)))
             \<and> (\<forall>j<i. m_score (snd (m_players s ! j)) < m_score (snd (m_players s ! i)))
             \<longrightarrow> ?w = m_id (snd (m_players s ! i)))"
  proof (intro impI allI)
    fix i
    assume nodead: "\<forall>d\<in>set (m_players s). m_state (snd d) \<noteq> DEAD"
      and i: "i < length (m_players s)"
      and best: "0 \<le> m_score (snd (m_players s ! i))
             \<and> (\<forall>j<length (m_players s).
                   m_score (snd (m_players s ! j)) \<le> m_score (snd (m_players s ! i)))
             \<and> (\<forall>j<i. m_score (snd (m_players s ! j)) < m_score (snd (m_players s ! i)))"
    from nodead ad have "\<not> ad" by simp
    moreover have "- 1 < m_score (snd (m_players s ! i))" using best by simp
    ultimately show "?w = m_id (snd (m_players s ! i))"
      using winnerLoop_first_max [OF i, of "- 1" "- 1"] best by (simp add: selectWinner_def)
  qed
  from sent dead score show ?thesis by blast
qed

lemma tieServer_ends: "endCondition (m_players tieServer)"
  by (simp add: endCondition_def tieServer_def demoPlayer_def setPosition_def newPlayer_def)

lemma tieServer_reloads: "\<not> isl (checkGameEnd demoFile tieServer)"
  by code_simp

theorem checkGameEnd_winner_witness:
  "endCondition (m_players tieServer)
   \<and> (\<exists>s'. checkGameEnd demoFile tieServer = Inr s'
        \<and> sent s' = [(4, gameOverPacket 1), (5, gameOverPacket 1)])"
proof -
  obtain s' where ok: "checkGameEnd demoFile tieServer = Inr s'"
    using tieServer_reloads by (cases "checkGameEnd demoFile tieServer") auto
  from checkGameEnd_winner [OF tieServer_ends ok]
  obtain w where sent: "sent s' = sent tieServer
        @ map (\<lambda>entry. (fst entry, gameOverPacket w)) (m_players tieServer)"
    and first: "(\<forall>d\<in>set (m_players tieServer). m_state (snd d) \<noteq> DEAD) \<longrightarrow>
          (\<forall>i<length (m_players tieServer).
             0 \<le> m_score (snd (m_players tieServer ! i))
             \<and> (\<forall>j<length (m_players tieServer).
                   m_score (snd (m_players tieServer ! j)) \<le> m_score (snd (m_players tieServer ! i)))
             \<and> (\<forall>j<i. m_score (snd (m_players tieServer ! j)) < m_score (snd (m_players tieServer ! i)))
             \<longrightarrow> w = m_id (snd (m_players tieServer ! i)))"
    by blast
  have players: "m_players tieServer
      = [(4, demoPlayer 4 1 2 0 1 FINISHED), (5, demoPlayer 5 2 2 0 1 FINISHED)]"
    by (simp add: tieServer_def)
  have fields: "m_score (demoPlayer 4 1 2 0 1 FINISHED) = 1" "m_score (demoPlayer 5 2 2 0 1 FINISHED) = 1"
    "m_state (demoPlayer 4 1 2 0 1 FINISHED) = FINISHED" "m_state (demoPlayer 5 2 2 0 1 FINISHED) = FINISHED"
    "m_id (demoPlayer 4 1 2 0 1 FINISHED) = 1"
    by (simp_all add: demoPlayer_def setPosition_def newPlayer_def)
  have "w = m_id (snd (m_players tieServer ! 0))"
  proof -
    have nodead: "\<forall>d\<in>set (m_players tieServer). m_state (snd d) \<noteq> DEAD"
      by (simp add: players fields)
    have best: "0 \<le> m_score (snd (m_players tieServer ! 0))
             \<and> (\<forall>j<length (m_players tieServer).
                   m_score (snd (m_players tieServer ! j)) \<le> m_score (snd (m_players tieServer ! 0)))
             \<and> (\<forall>j<0. m_score (snd (m_players tieServer ! j)) < m_score (snd (m_players tieServer ! 0)))"
      by (simp add: players fields less_Suc_eq numeral_2_eq_2)
    from first nodead have "\<forall>i<length (m_players tieServer).
             0 \<le> m_score (snd (m_players tieServer ! i))
             \<and> (\<forall>j<length (m_players tieServer).
                   m_score (snd (m_players tieServer ! j)) \<le> m_score (snd (m_players tieServer ! i)))
             \<and> (\<forall>j<i. m_score (snd (m_players tieServer ! j)) < m_score (snd (m_players tieServer ! i)))
             \<longrightarrow> w = m_id (snd (m_players tieServer ! i))"
      by blast
    from this [rule_format, of 0] best show ?thesis by (simp add: players)
  qed
  then have "w = 1" by (simp add: players fields)
  with sent have "sent s' = [(4, gameOverPacket 1), (5, gameOverPacket 1)]"
    by (simp add: players tieServer_def)
  with ok tieServer_ends show ?thesis by blast
qed

text \<open>
  C3 as stated says that on equal scores the player encountered later wins. Both
  players of \<open>tieServer\<close> have score 1; the GAME_OVER packet names player 1, the first
  in the scan, and not player 2.
\<close>

theorem last_max_wins_counterexample:
  "m_score (snd (m_players tieServer ! 0)) = m_score (snd (m_players tieServer ! 1))
   \<and> m_id (snd (m_players tieServer ! 1)) = 2
   \<and> map_sum id sent (checkGameEnd demoFile tieServer)
       = Inr [(4, [0x0A, 1, 1]), (5, [0x0A, 1, 1])]
   \<and> gameOverPacket 2 = [0x0A, 1, 2]"
  by code_simp

section \<open>Coins\<close>

lemma bindF_Inr [simp]: "bindF (Inr v) f = f v"
  by (simp add: bindF_def)

lemma bindF_Inl [simp]: "bindF (Inl e) f = Inl e"
  by (simp add: bindF_def)











section \<open>Packet sizes\<close>

lemma mapDataSize_5_3: "mapDataSize 5 3 = 35"
  by (simp add: mapDataSize_def)

text \<open>\<open>getPacketSize\<close> reads the length of the buffer and its first five bytes only.\<close>

lemma getPacketSize_header:
  assumes len: "length other = length data" and hdr: "take 5 other = take 5 data"
  shows "getPacketSize other = getPacketSize data"
proof -
  have nth: "\<And>i. i < 5 \<Longrightarrow> i < length data \<Longrightarrow> other ! i = data ! i"
  proof -
    fix i :: nat assume "i < 5" "i < length data"
    then have "other ! i = take 5 other ! i" "data ! i = take 5 data ! i"
      using len by simp_all
    then show "other ! i = data ! i" using hdr by simp
  qed
  show ?thesis
  proof (cases "length data < 1")
    case True
    then show ?thesis using len by (simp add: getPacketSize_def)
  next
    case False
    then have 0: "other ! 0 = data ! 0" using nth [of 0] by simp
    show ?thesis
    proof (cases "length data < 5")
      case True
      have 1: "length data \<ge> 2 \<Longrightarrow> other ! 1 = data ! 1" using nth [of 1] by simp
      show ?thesis using len 0 1 True False
        by (auto simp: getPacketSize_def Let_def split: option.splits PacketType.splits)
    next
      case False
      then have "other ! 1 = data ! 1" "other ! 2 = data ! 2" "other ! 3 = data ! 3" "other ! 4 = data ! 4"
        using nth [of 1] nth [of 2] nth [of 3] nth [of 4] by simp_all
      then show ?thesis using len 0
        by (simp add: getPacketSize_def Let_def split: option.splits PacketType.splits)
    qed
  qed
qed

text \<open>
  C7. For a buffer that starts with the MAP_DATA tag and whose header, once five bytes
  are there, gives width 5 and height 3, \<open>getPacketSize\<close> returns 35 when the buffer
  holds at least 35 bytes and 0 when it holds fewer. The result is a function of the
  length of the buffer and of its first five bytes, the tag and the header fields.
\<close>

theorem getPacketSize_map_data:
  assumes tag: "data \<noteq> []" "data ! 0 = PacketType_byte MAP_DATA"
    and hdr: "5 \<le> length data \<longrightarrow> le16 (data ! 1) (data ! 2) = 5 \<and> le16 (data ! 3) (data ! 4) = 3"
  shows "getPacketSize data = (if 35 \<le> length data then 35 else 0)
     \<and> (\<forall>other. length other = length data \<and> take 5 other = take 5 data
           \<longrightarrow> getPacketSize other = getPacketSize data)"
proof -
  have t: "PacketType_of_byte (data ! 0) = Some MAP_DATA"
    using tag by (simp add: PacketType_of_byte_def)
  have "getPacketSize data = (if 35 \<le> length data then 35 else 0)"
    using tag t hdr by (auto simp: getPacketSize_def Let_def mapDataSize_5_3)
  then show ?thesis using getPacketSize_header by blast
qed

theorem getPacketSize_map_data_witness:
  "getPacketSize ([0x03, 5, 0, 3, 0] @ replicate 30 0) = 35
   \<and> getPacketSize ([0x03, 5, 0, 3, 0] @ replicate 29 0) = 0
   \<and> getPacketSize [0x03, 5, 0] = 0"
proof -
  have w: "le16 5 0 = 5" and h: "le16 3 0 = 3"
    by (simp_all add: le16_def)
  have a: "getPacketSize ([0x03, 5, 0, 3, 0] @ replicate 30 0) = 35"
    using getPacketSize_map_data [of "[0x03, 5, 0, 3, 0] @ replicate 30 0"] w h by simp
  have b: "getPacketSize ([0x03, 5, 0, 3, 0] @ replicate 29 0) = 0"
    using getPacketSize_map_data [of "[0x03, 5, 0, 3, 0] @ replicate 29 0"] w h by simp
  have c: "getPacketSize [0x03, 5, 0] = 0"
    using getPacketSize_map_data [of "[0x03, 5, 0]"] by simp
  from a b c show ?thesis by simp
qed

text \<open>
  C8. When the first byte of the accumulated buffer, with the bytes just received
  appended, names no packet type, \<open>getPacketSize\<close> returns 0, the loop stops at once
  with no packet dispatched and no byte consumed, and the retained buffer is the whole
  accumulated buffer as it was.
\<close>

theorem unknown_tag_not_consumed:
  assumes "accumulatedBuffer @ received \<noteq> []"
    and "PacketType_of_byte ((accumulatedBuffer @ received) ! 0) = None"
  shows "getPacketSize (accumulatedBuffer @ received) = 0
     \<and> receiveBytes accumulatedBuffer received = (accumulatedBuffer @ received, [])"
proof -
  have size: "getPacketSize (accumulatedBuffer @ received) = 0"
    using assms by (simp add: getPacketSize_def Let_def)
  have "consumePackets (accumulatedBuffer @ received) 0 [] = (0, [])"
    using assms(1) size by (subst consumePackets.simps) simp
  then show ?thesis using size by (simp add: receiveBytes_def)
qed

theorem unknown_tag_not_consumed_witness:
  "PacketType_of_byte 0xFF = None
   \<and> getPacketSize [0xFF, 0x02, 1, 1] = 0
   \<and> receiveBytes [0xFF] [0x02, 1, 1] = ([0xFF, 0x02, 1, 1], [])"
proof -
  have tag: "PacketType_of_byte (([0xFF] @ [0x02, 1, 1]) ! 0) = None"
    by (simp add: PacketType_of_byte_def)
  have ne: "[0xFF] @ [0x02, 1, 1 :: byte] \<noteq> []" by simp
  from unknown_tag_not_consumed [OF ne tag] tag show ?thesis by simp
qed

section \<open>The GAME_STATE_UPDATE round trip\<close>































section \<open>Runs of the server\<close>

lemma demoServer_initial: "newGameServer demoFile 3 = Inr demoServer"
  by code_simp

text \<open>
  Accepting a connection on a descriptor that is not in the table adds one player,
  whatever the size of the table.
\<close>

lemma sendMapData_players:
  "sendMapData clientSocket s = Inr s' \<Longrightarrow> m_players s' = m_players s"
  by (auto simp: sendMapData_def sendToClient_def bindF_def Let_def split: sum.splits)

lemma checkGameStart_length: "length (m_players (checkGameStart s)) = length (m_players s)"
  by (simp add: checkGameStart_def Let_def broadcastGameState_def broadcastGameStart_def
      broadcastToAll_def)

lemma acceptNewClient_grows:
  assumes "0 \<le> clientSocket" and "map_of (m_players s) clientSocket = None"
    and "acceptNewClient clientSocket s = Inr s'"
  shows "length (m_players s') = length (m_players s) + 1"
proof -
  let ?s1 = "sendConnectResponse clientSocket (int (length (m_players s)) + 1)
      (s\<lparr> m_pollfds := m_pollfds s @ [clientSocket],
          m_players := emplace clientSocket
            (newPlayer clientSocket (int (length (m_players s)) + 1)) (m_players s) \<rparr>)"
  from assms(1,3) obtain s2 where send: "sendMapData clientSocket ?s1 = Inr s2"
    and s': "s' = checkGameStart s2"
    by (cases "sendMapData clientSocket ?s1") (auto simp: acceptNewClient_def Let_def)
  have "length (m_players ?s1) = length (m_players s) + 1"
    using assms(2) by (simp add: sendConnectResponse_def sendToClient_def emplace_def)
  then have "length (m_players s2) = length (m_players s) + 1"
    using sendMapData_players [OF send] by simp
  then show ?thesis using s' by (simp add: checkGameStart_length)
qed

text \<open>
  C4 fails on the code: \<open>acceptNewClient\<close> never compares the size of the player table
  with \<open>MAX_CLIENTS\<close>. Three connections accepted one after the other on the freshly
  started server leave three players in the table, with ids 1, 2 and 3, while the match
  started by the second one is in progress.
\<close>

theorem third_client_accepted:
  "MAX_CLIENTS = 2
   \<and> map_sum id (\<lambda>s. (m_gameState s, map (\<lambda>entry. m_id (snd entry)) (m_players s), m_pollfds s))
        (serverRun demoFile [NewConnection 4, NewConnection 5, NewConnection 6] demoServer)
       = Inr (IN_PROGRESS, [1, 2, 3], [3, 4, 5, 6])"
  by code_simp

text \<open>
  A reload onto a coin-state grid that already has one row per line of the file keeps
  every coin state: \<open>resize\<close> appends nothing and the loop writes only the tiles.
\<close>

lemma loadMap_keeps_coinStates:
  assumes "loadMap (Some content) gmap = Inr (True, gmap')"
    and "length (coinStates gmap) = length (filter (\<lambda>line. line \<noteq> []) content)"
  shows "coinStates gmap' = coinStates gmap"
  using assms
  by (auto simp: loadMap_def Let_def vec_resize_def bindF_def split: if_splits sum.splits)


text \<open>Once the session is in GAME_OVER, no event handler and no tick leaves it.\<close>

lemma sendMapData_gameState:
  "sendMapData clientSocket s = Inr s' \<Longrightarrow> m_gameState s' = m_gameState s"
  by (auto simp: sendMapData_def sendToClient_def bindF_def Let_def split: sum.splits)

lemma handleClientDisconnect_game_over:
  "m_gameState s = GAME_OVER \<Longrightarrow> m_gameState (handleClientDisconnect clientSocket s) = GAME_OVER"
  by (simp add: handleClientDisconnect_def Let_def)

lemma handleClientData_game_over:
  "m_gameState s = GAME_OVER \<Longrightarrow> m_gameState (handleClientData clientSocket r s) = GAME_OVER"
  by (auto simp: handleClientData_def processPacket_def handlePlayerInput_def Let_def
        handleClientDisconnect_game_over
      split: recv_result.splits option.splits PacketType.splits)

lemma acceptNewClient_game_over:
  assumes "m_gameState s = GAME_OVER" and "acceptNewClient clientSocket s = Inr s'"
  shows "m_gameState s' = GAME_OVER"
proof (cases "clientSocket < 0")
  case True
  then show ?thesis using assms by (simp add: acceptNewClient_def)
next
  case False
  let ?s1 = "sendConnectResponse clientSocket (int (length (m_players s)) + 1)
      (s\<lparr> m_pollfds := m_pollfds s @ [clientSocket],
          m_players := emplace clientSocket
            (newPlayer clientSocket (int (length (m_players s)) + 1)) (m_players s) \<rparr>)"
  from assms(2) False obtain s2 where send: "sendMapData clientSocket ?s1 = Inr s2"
    and s': "s' = checkGameStart s2"
    by (cases "sendMapData clientSocket ?s1") (auto simp: acceptNewClient_def Let_def)
  have "m_gameState ?s1 = GAME_OVER"
    using assms(1) by (simp add: sendConnectResponse_def sendToClient_def)
  then have "m_gameState s2 = GAME_OVER"
    using sendMapData_gameState [OF send] by simp
  then show ?thesis using s' by (simp add: checkGameStart_def)
qed

lemma serverStep_game_over:
  assumes "m_gameState s = GAME_OVER" and "serverStep file e s = Inr s'"
  shows "m_gameState s' = GAME_OVER"
proof (cases e)
  case (NewConnection clientSocket)
  then show ?thesis using assms acceptNewClient_game_over by (simp add: serverStep_def)
next
  case (ClientReadable clientSocket r)
  then show ?thesis using assms handleClientData_game_over by (auto simp: serverStep_def)
next
  case (ClientHangup clientSocket)
  then show ?thesis using assms handleClientDisconnect_game_over by (auto simp: serverStep_def)
next
  case Tick
  then show ?thesis using assms by (auto simp: serverStep_def updateGameState_def)
qed

lemma game_over_is_final:
  "m_gameState s = GAME_OVER \<Longrightarrow> serverRun file es s = Inr s' \<Longrightarrow> m_gameState s' = GAME_OVER"
proof (induction es arbitrary: s)
  case Nil
  then show ?case by (simp add: serverRun_def)
next
  case (Cons e es)
  from Cons.prems(2) obtain s1 where step: "serverStep file e s = Inr s1"
    and rest: "serverRun file es s1 = Inr s'"
    by (cases "serverStep file e s") (auto simp: serverRun_def)
  from serverStep_game_over [OF Cons.prems(1) step] Cons.IH [OF _ rest]
  show ?case by simp
qed

text \<open>
  The end-condition path does reset: when \<open>checkGameEnd\<close> fires and the map reloads,
  the sockets of all players are closed, the table is empty and the session waits for
  players.
\<close>

lemma checkGameEnd_resets:
  assumes "endCondition (m_players s)" and "checkGameEnd file s = Inr s'"
  shows "m_gameState s' = WAITING_FOR_PLAYERS \<and> m_players s' = []
     \<and> closed s' = closed s @ map fst (m_players s)"
proof -
  obtain af ad n where flags: "endFlags (m_players s) (True, False, 0) = (af, ad, n)"
    by (cases "endFlags (m_players s) (True, False, 0)") auto
  have "resetGame file (broadcastGameOver (selectWinner ad (m_players s))
          (s\<lparr> m_gameState := GAME_OVER \<rparr>)) = Inr s'"
    using assms flags by (simp add: checkGameEnd_def endCondition_def Let_def)
  then show ?thesis
    by (auto simp: resetGame_def Let_def bindF_def broadcastGameOver_def broadcastToAll_def
        split: sum.splits prod.splits if_splits)
qed

text \<open>
  C10 fails on the code: \<open>handleClientDisconnect\<close> sets GAME_OVER and broadcasts, but
  does not call \<open>resetGame\<close> as \<open>checkGameEnd\<close> does. After one of two playing clients
  hangs up, the session is in GAME_OVER with the other player still in the table, and
  ticks, a new connection and input from the remaining client leave it there.
\<close>

theorem disconnect_stays_game_over:
  "map_sum id (\<lambda>s. (m_gameState s, map fst (m_players s), closed s))
     (serverRun demoFile [NewConnection 4, NewConnection 5, Tick, ClientHangup 4] demoServer)
     = Inr (GAME_OVER, [5], [4])
   \<and> map_sum id (\<lambda>s. (m_gameState s, map fst (m_players s), closed s))
     (serverRun demoFile
        [NewConnection 4, NewConnection 5, Tick, ClientHangup 4,
         Tick, NewConnection 6, ClientReadable 5 (Received [0x05, 1]), Tick, Tick]
        demoServer)
     = Inr (GAME_OVER, [5, 6], [4])"
  by code_simp

end
